theory Spec2Isabelle
  imports Complex_Main
begin

section \<open>Exact decimals: the big.js operations used by the services\<close>

text \<open>
  Every monetary field of the entities is a decimal string. The services turn such a
  string into a decimal with \<^verbatim>\<open>new Big(s)\<close>, compute with \<^verbatim>\<open>times\<close>,
  \<^verbatim>\<open>div\<close>, \<^verbatim>\<open>plus\<close>, \<^verbatim>\<open>lte\<close>, and turn the result back into a
  string with \<^verbatim>\<open>toFixed(8)\<close>. big.js is an external library; it is modelled here by
  its documented behaviour with the default settings \<^verbatim>\<open>DP = 20\<close> and
  \<^verbatim>\<open>RM = 1\<close> (round half up, i.e. ties away from zero).

  A decimal \<open>Big m k\<close> stands for the number \<open>m / 10 ^ k\<close>.
\<close>

datatype Big = Big int nat

fun Big_val :: "Big \<Rightarrow> rat" where
  "Big_val (Big m k) = of_int m / 10 ^ k"

subsection \<open>Digits\<close>

definition is_digit :: "char \<Rightarrow> bool" where
  "is_digit c = (48 \<le> (of_char c :: nat) \<and> (of_char c :: nat) \<le> 57)"

definition digit_val :: "char \<Rightarrow> nat" where
  "digit_val c = of_char c - 48"

definition digit_char :: "nat \<Rightarrow> char" where
  "digit_char d =
    (if d = 0 then CHR ''0'' else if d = 1 then CHR ''1'' else if d = 2 then CHR ''2''
     else if d = 3 then CHR ''3'' else if d = 4 then CHR ''4'' else if d = 5 then CHR ''5''
     else if d = 6 then CHR ''6'' else if d = 7 then CHR ''7'' else if d = 8 then CHR ''8''
     else CHR ''9'')"

definition nat_of_digits :: "string \<Rightarrow> nat" where
  "nat_of_digits ds = foldl (\<lambda>a c. 10 * a + digit_val c) 0 ds"

text \<open>The decimal numeral of a natural number, without leading zeros.\<close>

fun digits_of :: "nat \<Rightarrow> string" where
  "digits_of n =
    (if n < 10 then [digit_char n] else digits_of (n div 10) @ [digit_char (n mod 10)])"

declare digits_of.simps [simp del]

text \<open>The last \<open>k\<close> decimal digits of a number, padded with zeros on the left.\<close>

primrec pad_digits :: "nat \<Rightarrow> nat \<Rightarrow> string" where
  "pad_digits 0 n = []"
| "pad_digits (Suc k) n = pad_digits k (n div 10) @ [digit_char (n mod 10)]"

subsection \<open>\<^verbatim>\<open>new Big(s)\<close>: parsing a decimal string\<close>

text \<open>
  big.js accepts exactly the strings matching
  \<^verbatim>\<open>/^-?(\d+(\.\d*)?|\.\d+)(e[+-]?\d+)?$/i\<close> and throws
  \<^verbatim>\<open>[big.js] Invalid number\<close> on every other string; \<open>None\<close> is that throw.
\<close>

definition parse_digits :: "string \<Rightarrow> nat option" where
  "parse_digits s = (if s \<noteq> [] \<and> list_all is_digit s then Some (nat_of_digits s) else None)"

definition parse_exponent :: "string \<Rightarrow> int option" where
  "parse_exponent s =
    (case s of
       [] \<Rightarrow> None
     | c # r \<Rightarrow>
         if c = CHR ''+'' then map_option int (parse_digits r)
         else if c = CHR ''-'' then map_option (\<lambda>n. - int n) (parse_digits r)
         else map_option int (parse_digits s))"

text \<open>The decimal with digits \<open>m\<close>, of which \<open>k\<close> are fractional, times \<open>10 ^ e\<close>.\<close>

definition mk_Big :: "nat \<Rightarrow> nat \<Rightarrow> int \<Rightarrow> Big" where
  "mk_Big m k e =
    (if int k \<le> e then Big (int m * 10 ^ nat (e - int k)) 0 else Big (int m) (nat (int k - e)))"

definition parse_unsigned :: "string \<Rightarrow> Big option" where
  "parse_unsigned s =
    (let ip = takeWhile is_digit s;
         r1 = dropWhile is_digit s;
         fp = (case r1 of [] \<Rightarrow> [] | c # r \<Rightarrow> if c = CHR ''.'' then takeWhile is_digit r else []);
         r2 = (case r1 of [] \<Rightarrow> [] | c # r \<Rightarrow> if c = CHR ''.'' then dropWhile is_digit r else r1)
     in if ip = [] \<and> fp = [] then None
        else (case r2 of
                [] \<Rightarrow> Some (mk_Big (nat_of_digits (ip @ fp)) (length fp) 0)
              | c # r \<Rightarrow>
                  if c = CHR ''e'' \<or> c = CHR ''E''
                  then map_option (mk_Big (nat_of_digits (ip @ fp)) (length fp)) (parse_exponent r)
                  else None))"

fun Big_neg :: "Big \<Rightarrow> Big" where
  "Big_neg (Big m k) = Big (- m) k"

definition new_Big :: "string \<Rightarrow> Big option" where
  "new_Big s =
    (case s of
       [] \<Rightarrow> None
     | c # r \<Rightarrow> if c = CHR ''-'' then map_option Big_neg (parse_unsigned r) else parse_unsigned s)"

text \<open>\<^verbatim>\<open>new Big(n)\<close> and the numeric arguments \<^verbatim>\<open>lte(0)\<close>, \<^verbatim>\<open>div(100)\<close>: an integer.\<close>

definition Big_of_int :: "int \<Rightarrow> Big" where
  "Big_of_int n = Big n 0"

subsection \<open>Arithmetic\<close>

fun Big_times :: "Big \<Rightarrow> Big \<Rightarrow> Big" where
  "Big_times (Big a j) (Big b k) = Big (a * b) (j + k)"

fun Big_plus :: "Big \<Rightarrow> Big \<Rightarrow> Big" where
  "Big_plus (Big a j) (Big b k) = Big (a * 10 ^ k + b * 10 ^ j) (j + k)"

fun Big_lte :: "Big \<Rightarrow> Big \<Rightarrow> bool" where
  "Big_lte (Big a j) (Big b k) = (a * 10 ^ k \<le> b * 10 ^ j)"

text \<open>
  Rounding half up: the quotient \<open>n / d\<close> of two integers, \<open>d\<close> positive, rounded to the
  nearest integer, ties away from zero.
\<close>

definition half_up_div :: "int \<Rightarrow> int \<Rightarrow> int" where
  "half_up_div n d = sgn n * ((2 * \<bar>n\<bar> + d) div (2 * d))"

definition DP :: nat where
  "DP = 20"

text \<open>
  \<^verbatim>\<open>x.div(y)\<close> throws on a zero divisor (\<open>None\<close>) and otherwise rounds the quotient to
  \<open>DP\<close> decimal places, half up.
\<close>

fun Big_div :: "Big \<Rightarrow> Big \<Rightarrow> Big option" where
  "Big_div (Big a j) (Big b k) =
    (if b = 0 then None
     else Some (Big (sgn b * half_up_div (a * 10 ^ (k + DP)) (\<bar>b\<bar> * 10 ^ j)) DP))"

subsection \<open>\<^verbatim>\<open>toFixed(dp)\<close>\<close>

text \<open>The decimal rounded to \<open>dp\<close> decimal places, counted in units of \<open>10 ^ - dp\<close>.\<close>

fun Big_units :: "nat \<Rightarrow> Big \<Rightarrow> int" where
  "Big_units dp (Big m k) = (if k \<le> dp then m * 10 ^ (dp - k) else half_up_div m (10 ^ (k - dp)))"

fun Big_is_neg :: "Big \<Rightarrow> bool" where
  "Big_is_neg (Big m k) = (m < 0)"

text \<open>
  The sign is that of the unrounded value: big.js prints \<^verbatim>\<open>-0.00000000\<close> for a small
  negative number.
\<close>

definition toFixed :: "nat \<Rightarrow> Big \<Rightarrow> string" where
  "toFixed dp x =
    (let n = nat \<bar>Big_units dp x\<bar>;
         s = digits_of (n div 10 ^ dp) @
             (if dp = 0 then [] else CHR ''.'' # pad_digits dp (n mod 10 ^ dp))
     in if Big_is_neg x then CHR ''-'' # s else s)"

subsection \<open>\<^verbatim>\<open>parseFloat\<close> and JavaScript numbers\<close>

text \<open>
  The win rate and the reputation score are JavaScript numbers, and the services read
  several decimal columns with \<^verbatim>\<open>parseFloat\<close>. A number is modelled by the exact
  rational it denotes, or \<open>NaN\<close>; every comparison with \<open>NaN\<close> is false. On a decimal
  string \<^verbatim>\<open>parseFloat\<close> returns the value of the numeral (the rounding to a
  double is left out); a string that is no decimal numeral gives \<open>NaN\<close>.
\<close>

datatype number = NaN | Num rat

definition parseFloat :: "string \<Rightarrow> number" where
  "parseFloat s = (case new_Big s of None \<Rightarrow> NaN | Some b \<Rightarrow> Num (Big_val b))"

fun num_ge :: "number \<Rightarrow> number \<Rightarrow> bool" where
  "num_ge (Num x) (Num y) = (x \<ge> y)"
| "num_ge _ _ = False"

fun num_gt :: "number \<Rightarrow> number \<Rightarrow> bool" where
  "num_gt (Num x) (Num y) = (x > y)"
| "num_gt _ _ = False"

fun num_eq :: "number \<Rightarrow> number \<Rightarrow> bool" where
  "num_eq (Num x) (Num y) = (x = y)"
| "num_eq _ _ = False"

section \<open>Entities\<close>

text \<open>
  The entity classes are declared outside the files at hand; their fields are taken from
  the way the two services read and write them. Where the same field name occurs in
  several classes it carries a suffix here: \<open>_A\<close> assignment, \<open>_P\<close> payout, \<open>_S\<close> provider
  stats, \<open>_U\<close> user, \<open>_M\<close> metrics, \<open>_C\<close> calculation, \<open>_E\<close> evaluation result, \<open>_D\<close> batch
  detail, \<open>_O\<close> payout options.
\<close>

datatype ProviderTierLevel = BRONZE | SILVER | GOLD | PLATINUM | ELITE

datatype BonusType = PERFORMANCE | MONTHLY_TOP | STREAK

datatype PayoutStatus = PENDING | PROCESSING | COMPLETED | FAILED

text \<open>
  A point in time: the calendar year, the month as \<^verbatim>\<open>getMonth()\<close> returns it (from 0)
  and the time elapsed since that month began.
\<close>

record Date =
  fullYear :: int
  monthIndex :: nat
  sinceMonthStart :: nat

definition date_le :: "Date \<Rightarrow> Date \<Rightarrow> bool" where
  "date_le a b =
    (fullYear a < fullYear b \<or>
     (fullYear a = fullYear b \<and>
      (monthIndex a < monthIndex b \<or>
       (monthIndex a = monthIndex b \<and> sinceMonthStart a \<le> sinceMonthStart b))))"

text \<open>\<^verbatim>\<open>new Date(now.getFullYear(), now.getMonth(), 1)\<close>\<close>

definition startOfMonth :: "Date \<Rightarrow> Date" where
  "startOfMonth d = d\<lparr>sinceMonthStart := 0\<rparr>"

text \<open>TypeORM's \<^verbatim>\<open>Between(a, b)\<close>: both ends included.\<close>

definition Between :: "Date \<Rightarrow> Date \<Rightarrow> Date \<Rightarrow> bool" where
  "Between a b d = (date_le a d \<and> date_le d b)"

record RevenueShareTier =
  tierLevel :: ProviderTierLevel
  name :: string
  description :: string
  revenueSharePercentage :: string
  minWinRate :: string
  minSignals :: int
  minCopiers :: int
  minReputationScore :: string
  performanceBonusUsdc :: string
  monthlyRetentionBonusUsdc :: string
  isActive :: bool
  sortOrder :: int

text \<open>
  The two snapshot columns that the source fills with \<^verbatim>\<open>String(n)\<close> hold the
  number itself here.
\<close>

record ProviderTierAssignment =
  providerId_A :: string
  currentTier :: ProviderTierLevel
  previousTier :: "ProviderTierLevel option"
  winRateSnapshot :: number
  signalsSnapshot :: int
  copiersSnapshot :: int
  reputationSnapshot :: number
  lastEvaluatedAt :: "Date option"
  promotionBonusPaid :: bool

text \<open>
  A payout row. Its \<open>id\<close> and \<open>createdAt\<close> are given by the store when the row is
  inserted, and \<open>retryCount\<close> starts at 0.
\<close>

record ProviderRevenuePayout =
  id_P :: nat
  providerId_P :: string
  tierLevel_P :: ProviderTierLevel
  baseRevenue_P :: string
  sharePercentage_P :: string
  revenueShareAmount_P :: string
  bonusAmount_P :: string
  bonusType_P :: "BonusType option"
  totalPayout_P :: string
  assetCode :: string
  providerWalletAddress :: string
  status_P :: PayoutStatus
  periodYear_P :: int
  periodMonth_P :: int
  stellarTxHash :: "string option"
  failureReason :: "string option"
  retryCount :: nat
  paidAt :: "Date option"
  createdAt :: Date

record ProviderStats =
  providerId_S :: string
  winRate_S :: string
  totalSignals_S :: int
  totalCopiers_S :: int
  reputationScore_S :: string
  streakWins :: int

record User =
  id_U :: string
  walletAddress_U :: string

record ProviderMetrics =
  providerId_M :: string
  winRate_M :: number
  totalSignals_M :: int
  totalCopiers_M :: int
  reputationScore_M :: number
  walletAddress_M :: string

record TierEvaluationResult =
  providerId_E :: string
  previousTier_E :: "ProviderTierLevel option"
  newTier :: ProviderTierLevel
  promoted :: bool
  demoted :: bool
  bonusTriggered :: bool
  bonusAmount_E :: string

record RevenueShareCalculationDto =
  providerId_C :: string
  tierLevel_C :: ProviderTierLevel
  sharePercentage_C :: string
  baseRevenue_C :: string
  revenueShareAmount_C :: string
  bonusAmount_C :: string
  bonusType_C :: "BonusType option"
  totalPayout_C :: string

section \<open>Errors\<close>

text \<open>
  The text of an exception, with the values its template string interpolates. The last
  constructor is the reason the monthly batch gives for a provider it skips.
\<close>

datatype message =
    Base_revenue_must_be_positive
  | Tier_definition_not_found ProviderTierLevel
  | Provider_user_not_found string
  | Provider_not_found string
  | Payout_not_found nat
  | Only_FAILED_payouts_can_be_retried PayoutStatus
  | Exceeded_maximum_retry_attempts nat
  | Tier_not_found ProviderTierLevel
  | Invalid_number
  | Division_by_zero
  | Zero_revenue

text \<open>
  \<open>Error\<close> is a plain JavaScript \<^verbatim>\<open>Error\<close>: what big.js throws, and what
  \<^verbatim>\<open>updateTierConfig\<close> throws.
\<close>

datatype error =
    BadRequestException message
  | NotFoundException message
  | Error message

fun message_of :: "error \<Rightarrow> message" where
  "message_of (BadRequestException m) = m"
| "message_of (NotFoundException m) = m"
| "message_of (Error m) = m"

section \<open>The store\<close>

text \<open>
  The five repositories and the tier cache of \<^verbatim>\<open>TierManagerService\<close>. An
  operation takes the store and returns it with its result: a thrown exception leaves
  behind whatever was saved before it, so a failure is a pair of an error and a store.
\<close>

record Repos =
  tierRepo :: "RevenueShareTier list"
  tierCache :: "RevenueShareTier list"
  assignmentRepo :: "ProviderTierAssignment list"
  payoutRepo :: "ProviderRevenuePayout list"
  statsRepo :: "ProviderStats list"
  userRepo :: "User list"

text \<open>
  \<^verbatim>\<open>save\<close> of an entity that was read with \<^verbatim>\<open>findOne\<close>: the row that
  \<^verbatim>\<open>findOne\<close> returned, the first one matching, is replaced.
\<close>

fun replace_first :: "('a \<Rightarrow> bool) \<Rightarrow> 'a \<Rightarrow> 'a list \<Rightarrow> 'a list" where
  "replace_first P y [] = []"
| "replace_first P y (x # xs) = (if P x then y # xs else x # replace_first P y xs)"

text \<open>
  \<^verbatim>\<open>assignmentRepo.save\<close>: the row of this provider is replaced, a new provider's row is
  added.
\<close>

definition save_assignment :: "ProviderTierAssignment \<Rightarrow> Repos \<Rightarrow> Repos" where
  "save_assignment a s =
    (case find (\<lambda>b. providerId_A b = providerId_A a) (assignmentRepo s) of
       None \<Rightarrow> s\<lparr>assignmentRepo := assignmentRepo s @ [a]\<rparr>
     | Some _ \<Rightarrow>
         s\<lparr>assignmentRepo :=
             replace_first (\<lambda>b. providerId_A b = providerId_A a) a (assignmentRepo s)\<rparr>)"

text \<open>\<^verbatim>\<open>payoutRepo.save\<close> of a row read from the store.\<close>

definition save_payout :: "ProviderRevenuePayout \<Rightarrow> Repos \<Rightarrow> Repos" where
  "save_payout p s =
    s\<lparr>payoutRepo := replace_first (\<lambda>q. id_P q = id_P p) p (payoutRepo s)\<rparr>"

section \<open>\<^verbatim>\<open>TierManagerService\<close>\<close>

text \<open>
  Default tier configuration seeded on module init. The five entries of the array
  \<^verbatim>\<open>DEFAULT_TIERS\<close> are named one by one.
\<close>

definition BRONZE_TIER :: RevenueShareTier where
  "BRONZE_TIER =
    \<lparr>tierLevel = BRONZE, name = ''Bronze Provider'',
     description = ''Entry-level tier for new signal providers.'',
     revenueSharePercentage = ''4.00'', minWinRate = ''0'', minSignals = 0, minCopiers = 0,
     minReputationScore = ''0'', performanceBonusUsdc = ''0'',
     monthlyRetentionBonusUsdc = ''0'', isActive = True, sortOrder = 1\<rparr>"

definition SILVER_TIER :: RevenueShareTier where
  "SILVER_TIER =
    \<lparr>tierLevel = SILVER, name = ''Silver Provider'',
     description = ''Established providers with a consistent track record.'',
     revenueSharePercentage = ''6.00'', minWinRate = ''55'', minSignals = 20, minCopiers = 10,
     minReputationScore = ''55'', performanceBonusUsdc = ''10'',
     monthlyRetentionBonusUsdc = ''5'', isActive = True, sortOrder = 2\<rparr>"

definition GOLD_TIER :: RevenueShareTier where
  "GOLD_TIER =
    \<lparr>tierLevel = GOLD, name = ''Gold Provider'',
     description = ''High-performing providers with strong copier engagement.'',
     revenueSharePercentage = ''8.00'', minWinRate = ''62'', minSignals = 50, minCopiers = 50,
     minReputationScore = ''65'', performanceBonusUsdc = ''50'',
     monthlyRetentionBonusUsdc = ''20'', isActive = True, sortOrder = 3\<rparr>"

definition PLATINUM_TIER :: RevenueShareTier where
  "PLATINUM_TIER =
    \<lparr>tierLevel = PLATINUM, name = ''Platinum Provider'',
     description = ''Elite-class providers with outstanding performance.'',
     revenueSharePercentage = ''9.00'', minWinRate = ''68'', minSignals = 100, minCopiers = 150,
     minReputationScore = ''75'', performanceBonusUsdc = ''150'',
     monthlyRetentionBonusUsdc = ''50'', isActive = True, sortOrder = 4\<rparr>"

definition ELITE_TIER :: RevenueShareTier where
  "ELITE_TIER =
    \<lparr>tierLevel = ELITE, name = ''Elite Provider'',
     description = ''Top-tier providers who receive the maximum 10 % revenue share.'',
     revenueSharePercentage = ''10.00'', minWinRate = ''75'', minSignals = 200, minCopiers = 300,
     minReputationScore = ''85'', performanceBonusUsdc = ''500'',
     monthlyRetentionBonusUsdc = ''100'', isActive = True, sortOrder = 5\<rparr>"

definition DEFAULT_TIERS :: "RevenueShareTier list" where
  "DEFAULT_TIERS = [BRONZE_TIER, SILVER_TIER, GOLD_TIER, PLATINUM_TIER, ELITE_TIER]"

text \<open>Tier precedence used for promotion/demotion comparison.\<close>

definition TIER_ORDER :: "ProviderTierLevel list" where
  "TIER_ORDER = [BRONZE, SILVER, GOLD, PLATINUM, ELITE]"

text \<open>\<^verbatim>\<open>Array.prototype.indexOf\<close>: the first position of the element, or -1.\<close>

fun indexOf :: "'a list \<Rightarrow> 'a \<Rightarrow> int" where
  "indexOf [] x = - 1"
| "indexOf (y # ys) x =
    (if y = x then 0 else (let i = indexOf ys x in if i < 0 then - 1 else i + 1))"

text \<open>Idempotent seed: creates each tier once; never overwrites existing rows.\<close>

fun seedLoop :: "RevenueShareTier list \<Rightarrow> Repos \<Rightarrow> Repos" where
  "seedLoop [] s = s"
| "seedLoop (tier # tiers) s =
    (case find (\<lambda>t. tierLevel t = tierLevel tier) (tierRepo s) of
       None \<Rightarrow> seedLoop tiers (s\<lparr>tierRepo := tierRepo s @ [tier]\<rparr>)
     | Some _ \<Rightarrow> seedLoop tiers s)"

definition seedDefaultTiers :: "Repos \<Rightarrow> Repos" where
  "seedDefaultTiers s = seedLoop DEFAULT_TIERS s"

text \<open>
  \<^verbatim>\<open>tierRepo.find({ where: { isActive: true }, order: { sortOrder: 'ASC' } })\<close>
\<close>

definition refreshTierCache :: "Repos \<Rightarrow> Repos" where
  "refreshTierCache s = s\<lparr>tierCache := sort_key sortOrder (filter isActive (tierRepo s))\<rparr>"

definition onModuleInit :: "Repos \<Rightarrow> Repos" where
  "onModuleInit s = refreshTierCache (seedDefaultTiers s)"

definition getCachedTiers :: "Repos \<Rightarrow> RevenueShareTier list" where
  "getCachedTiers s = tierCache s"

text \<open>The test \<open>qualifies\<close> in the loop of \<^verbatim>\<open>resolveTierForMetrics\<close>.\<close>

definition qualifies :: "ProviderMetrics \<Rightarrow> RevenueShareTier \<Rightarrow> bool" where
  "qualifies metrics tier =
    (num_ge (winRate_M metrics) (parseFloat (minWinRate tier)) \<and>
     totalSignals_M metrics \<ge> minSignals tier \<and>
     totalCopiers_M metrics \<ge> minCopiers tier \<and>
     num_ge (reputationScore_M metrics) (parseFloat (minReputationScore tier)))"

text \<open>
  The cached tiers are copied and sorted with the comparator
  \<^verbatim>\<open>TIER_ORDER.indexOf(b.tierLevel) - TIER_ORDER.indexOf(a.tierLevel)\<close>, that is by
  descending index; JavaScript's sort is stable, as \<open>sort_key\<close> is.
\<close>

definition resolveTierForMetrics :: "Repos \<Rightarrow> ProviderMetrics \<Rightarrow> ProviderTierLevel" where
  "resolveTierForMetrics s metrics =
    (let tiers = sort_key (\<lambda>t. - indexOf TIER_ORDER (tierLevel t)) (getCachedTiers s)
     in case find (qualifies metrics) tiers of
          Some tier \<Rightarrow> tierLevel tier
        | None \<Rightarrow> BRONZE)"

text \<open>The store gives a new payout row an id that no row has.\<close>

definition next_payout_id :: "ProviderRevenuePayout list \<Rightarrow> nat" where
  "next_payout_id ps = foldr (\<lambda>p n. max (Suc (id_P p)) n) ps 0"

text \<open>
  Persist a new payout record: \<^verbatim>\<open>payoutRepo.create\<close> followed by
  \<^verbatim>\<open>payoutRepo.save\<close>.
\<close>

definition recordPayout ::
  "Date \<Rightarrow> string \<Rightarrow> ProviderTierLevel \<Rightarrow> string \<Rightarrow> string \<Rightarrow> string \<Rightarrow> string \<Rightarrow>
   BonusType option \<Rightarrow> string \<Rightarrow> string \<Rightarrow> int option \<Rightarrow> int option \<Rightarrow> Repos \<Rightarrow>
   ProviderRevenuePayout \<times> Repos" where
  "recordPayout now providerId tier baseRevenue sharePercentage revenueShareAmount
     bonusAmount bonusType totalPayout wallet periodYear periodMonth s =
    (let payout =
       \<lparr>id_P = next_payout_id (payoutRepo s),
        providerId_P = providerId,
        tierLevel_P = tier,
        baseRevenue_P = baseRevenue,
        sharePercentage_P = sharePercentage,
        revenueShareAmount_P = revenueShareAmount,
        bonusAmount_P = bonusAmount,
        bonusType_P = bonusType,
        totalPayout_P = totalPayout,
        assetCode = ''USDC'',
        providerWalletAddress = wallet,
        status_P = PENDING,
        periodYear_P = (case periodYear of Some y \<Rightarrow> y | None \<Rightarrow> fullYear now),
        periodMonth_P = (case periodMonth of Some m \<Rightarrow> m | None \<Rightarrow> int (monthIndex now) + 1),
        stellarTxHash = None,
        failureReason = None,
        retryCount = 0,
        paidAt = None,
        createdAt = now\<rparr>
     in (payout, s\<lparr>payoutRepo := payoutRepo s @ [payout]\<rparr>))"

text \<open>Evaluate a provider given an already-resolved metrics object.\<close>

definition evaluateProviderWithMetrics ::
  "Date \<Rightarrow> ProviderMetrics \<Rightarrow> Repos \<Rightarrow> TierEvaluationResult \<times> Repos" where
  "evaluateProviderWithMetrics now metrics s =
    (let newTier' = resolveTierForMetrics s metrics;
         found = find (\<lambda>a. providerId_A a = providerId_M metrics) (assignmentRepo s);
         previousTier' = map_option currentTier found;
         wasPromoted =
           (case previousTier' of
              None \<Rightarrow> False
            | Some p \<Rightarrow> indexOf TIER_ORDER newTier' > indexOf TIER_ORDER p);
         wasDemoted =
           (case previousTier' of
              None \<Rightarrow> False
            | Some p \<Rightarrow> indexOf TIER_ORDER newTier' < indexOf TIER_ORDER p);
         assignment0 =
           (case found of
              None \<Rightarrow>
                \<lparr>providerId_A = providerId_M metrics, currentTier = newTier',
                 previousTier = None, winRateSnapshot = winRate_M metrics,
                 signalsSnapshot = totalSignals_M metrics,
                 copiersSnapshot = totalCopiers_M metrics,
                 reputationSnapshot = reputationScore_M metrics,
                 lastEvaluatedAt = Some now, promotionBonusPaid = False\<rparr>
            | Some a \<Rightarrow> a\<lparr>previousTier := Some (currentTier a), currentTier := newTier'\<rparr>);
         assignment1 =
           assignment0\<lparr>winRateSnapshot := winRate_M metrics,
                       signalsSnapshot := totalSignals_M metrics,
                       copiersSnapshot := totalCopiers_M metrics,
                       reputationSnapshot := reputationScore_M metrics,
                       lastEvaluatedAt := Some now\<rparr>;
         tierDef =
           (if wasPromoted \<and> walletAddress_M metrics \<noteq> []
            then find (\<lambda>t. tierLevel t = newTier') (getCachedTiers s) else None)
     in case tierDef of
          Some def \<Rightarrow>
            if num_gt (parseFloat (performanceBonusUsdc def)) (Num 0)
            then
              (let bonusAmount = performanceBonusUsdc def;
                   assignment2 = assignment1\<lparr>promotionBonusPaid := True\<rparr>;
                   s1 = snd (recordPayout now (providerId_M metrics) newTier' ''0'' ''0'' ''0''
                               bonusAmount (Some PERFORMANCE) bonusAmount
                               (walletAddress_M metrics) None None s)
               in (\<lparr>providerId_E = providerId_M metrics, previousTier_E = previousTier',
                    newTier = newTier', promoted = wasPromoted, demoted = wasDemoted,
                    bonusTriggered = True, bonusAmount_E = bonusAmount\<rparr>,
                   save_assignment assignment2 s1))
            else
              (\<lparr>providerId_E = providerId_M metrics, previousTier_E = previousTier',
                newTier = newTier', promoted = wasPromoted, demoted = wasDemoted,
                bonusTriggered = False, bonusAmount_E = ''0''\<rparr>,
               save_assignment assignment1 s)
        | None \<Rightarrow>
            (\<lparr>providerId_E = providerId_M metrics, previousTier_E = previousTier',
              newTier = newTier', promoted = wasPromoted, demoted = wasDemoted,
              bonusTriggered = False, bonusAmount_E = ''0''\<rparr>,
             save_assignment assignment1 s))"

text \<open>
  Evaluate a single provider and update their tier assignment. The wallet address of the
  metrics is the empty string.
\<close>

definition evaluateProvider :: "Date \<Rightarrow> string \<Rightarrow> Repos \<Rightarrow> TierEvaluationResult \<times> Repos" where
  "evaluateProvider now providerId s =
    (let stats = find (\<lambda>st. providerId_S st = providerId) (statsRepo s);
         metrics =
           \<lparr>providerId_M = providerId,
            winRate_M = (case stats of Some st \<Rightarrow> parseFloat (winRate_S st) | None \<Rightarrow> Num 0),
            totalSignals_M = (case stats of Some st \<Rightarrow> totalSignals_S st | None \<Rightarrow> 0),
            totalCopiers_M = (case stats of Some st \<Rightarrow> totalCopiers_S st | None \<Rightarrow> 0),
            reputationScore_M =
              (case stats of Some st \<Rightarrow> parseFloat (reputationScore_S st) | None \<Rightarrow> Num 0),
            walletAddress_M = []\<rparr>
     in evaluateProviderWithMetrics now metrics s)"

text \<open>
  Batch-evaluate all providers who have a stats record. The \<^verbatim>\<open>try\<close> around each
  evaluation has nothing to catch here: no step of an evaluation throws.
\<close>

fun evaluateAllLoop ::
  "Date \<Rightarrow> ProviderStats list \<Rightarrow> TierEvaluationResult list \<Rightarrow> Repos \<Rightarrow>
   TierEvaluationResult list \<times> Repos" where
  "evaluateAllLoop now [] results s = (results, s)"
| "evaluateAllLoop now (stats # rest) results s =
    (let (result, s1) = evaluateProvider now (providerId_S stats) s
     in evaluateAllLoop now rest (results @ [result]) s1)"

definition evaluateAllProviders :: "Date \<Rightarrow> Repos \<Rightarrow> TierEvaluationResult list \<times> Repos" where
  "evaluateAllProviders now s = evaluateAllLoop now (statsRepo s) [] s"

text \<open>The fields \<^verbatim>\<open>updateTierConfig\<close> accepts; an absent field is left as it is.\<close>

record TierUpdates =
  revenueSharePercentage_T :: "string option"
  minWinRate_T :: "string option"
  minSignals_T :: "int option"
  minCopiers_T :: "int option"
  performanceBonusUsdc_T :: "string option"
  monthlyRetentionBonusUsdc_T :: "string option"
  isActive_T :: "bool option"

definition assign_updates :: "RevenueShareTier \<Rightarrow> TierUpdates \<Rightarrow> RevenueShareTier" where
  "assign_updates tier u =
    tier\<lparr>revenueSharePercentage :=
           (case revenueSharePercentage_T u of Some v \<Rightarrow> v | None \<Rightarrow> revenueSharePercentage tier),
         minWinRate := (case minWinRate_T u of Some v \<Rightarrow> v | None \<Rightarrow> minWinRate tier),
         minSignals := (case minSignals_T u of Some v \<Rightarrow> v | None \<Rightarrow> minSignals tier),
         minCopiers := (case minCopiers_T u of Some v \<Rightarrow> v | None \<Rightarrow> minCopiers tier),
         performanceBonusUsdc :=
           (case performanceBonusUsdc_T u of Some v \<Rightarrow> v | None \<Rightarrow> performanceBonusUsdc tier),
         monthlyRetentionBonusUsdc :=
           (case monthlyRetentionBonusUsdc_T u of
              Some v \<Rightarrow> v
            | None \<Rightarrow> monthlyRetentionBonusUsdc tier),
         isActive := (case isActive_T u of Some v \<Rightarrow> v | None \<Rightarrow> isActive tier)\<rparr>"

definition updateTierConfig ::
  "ProviderTierLevel \<Rightarrow> TierUpdates \<Rightarrow> Repos \<Rightarrow> (error + RevenueShareTier) \<times> Repos" where
  "updateTierConfig level updates s =
    (case find (\<lambda>t. tierLevel t = level) (tierRepo s) of
       None \<Rightarrow> (Inl (Error (Tier_not_found level)), s)
     | Some tier \<Rightarrow>
         (let saved = assign_updates tier updates;
              s1 = s\<lparr>tierRepo := replace_first (\<lambda>t. tierLevel t = level) saved (tierRepo s)\<rparr>
          in (Inr saved, refreshTierCache s1)))"

section \<open>\<^verbatim>\<open>RevenueShareService\<close>\<close>

text \<open>
  The first steps of several methods, named here: getting or creating the provider's tier
  assignment (a first-time provider is evaluated), and reading
  \<^verbatim>\<open>assignment?.currentTier ?? ProviderTierLevel.BRONZE\<close>.
\<close>

definition getOrCreateAssignment :: "Date \<Rightarrow> string \<Rightarrow> Repos \<Rightarrow> Repos" where
  "getOrCreateAssignment now providerId s =
    (case find (\<lambda>a. providerId_A a = providerId) (assignmentRepo s) of
       None \<Rightarrow> snd (evaluateProvider now providerId s)
     | Some _ \<Rightarrow> s)"

definition currentTierOrBronze :: "string \<Rightarrow> Repos \<Rightarrow> ProviderTierLevel" where
  "currentTierOrBronze providerId s =
    (case find (\<lambda>a. providerId_A a = providerId) (assignmentRepo s) of
       None \<Rightarrow> BRONZE
     | Some a \<Rightarrow> currentTier a)"

text \<open>
  Calculate the revenue share owed to a provider for a given base revenue amount. The
  decimals are parsed in the order in which the source constructs them; a string that
  big.js rejects ends the call with its \<^verbatim>\<open>Error\<close>.
\<close>

definition calculateRevenueShare ::
  "Date \<Rightarrow> string \<Rightarrow> string \<Rightarrow> bool \<Rightarrow> Repos \<Rightarrow> (error + RevenueShareCalculationDto) \<times> Repos"
  where
  "calculateRevenueShare now providerId baseRevenue includeBonus s =
    (case new_Big baseRevenue of
       None \<Rightarrow> (Inl (Error Invalid_number), s)
     | Some base \<Rightarrow>
         if Big_lte base (Big_of_int 0)
         then (Inl (BadRequestException Base_revenue_must_be_positive), s)
         else
           (let s1 = getOrCreateAssignment now providerId s;
                tier = currentTierOrBronze providerId s1
            in case find (\<lambda>t. tierLevel t = tier) (tierRepo s1) of
                 None \<Rightarrow> (Inl (NotFoundException (Tier_definition_not_found tier)), s1)
               | Some tierDef \<Rightarrow>
                   (let sharePercentage = revenueSharePercentage tierDef
                    in case new_Big sharePercentage of
                         None \<Rightarrow> (Inl (Error Invalid_number), s1)
                       | Some pct \<Rightarrow>
                   (case Big_div (Big_times base pct) (Big_of_int 100) of
                      None \<Rightarrow> (Inl (Error Division_by_zero), s1)
                    | Some q \<Rightarrow>
                   (let revenueShareAmount = toFixed 8 q;
                        withBonus =
                          (includeBonus \<and>
                           num_gt (parseFloat (monthlyRetentionBonusUsdc tierDef)) (Num 0))
                    in case (if withBonus
                             then map_option (toFixed 8)
                                    (new_Big (monthlyRetentionBonusUsdc tierDef))
                             else Some ''0.00000000'') of
                         None \<Rightarrow> (Inl (Error Invalid_number), s1)
                       | Some bonusAmount \<Rightarrow>
                   (case new_Big revenueShareAmount of
                      None \<Rightarrow> (Inl (Error Invalid_number), s1)
                    | Some r \<Rightarrow>
                   (case new_Big bonusAmount of
                      None \<Rightarrow> (Inl (Error Invalid_number), s1)
                    | Some b \<Rightarrow>
                        (Inr \<lparr>providerId_C = providerId,
                              tierLevel_C = tier,
                              sharePercentage_C = sharePercentage,
                              baseRevenue_C = baseRevenue,
                              revenueShareAmount_C = revenueShareAmount,
                              bonusAmount_C = bonusAmount,
                              bonusType_C = (if withBonus then Some MONTHLY_TOP else None),
                              totalPayout_C = toFixed 8 (Big_plus r b)\<rparr>,
                         s1))))))))"

text \<open>
  Mark a payout as processing (escalation path for top-tier providers): the object is
  changed and saved.
\<close>

definition escalatePayout :: "ProviderRevenuePayout \<Rightarrow> Repos \<Rightarrow> ProviderRevenuePayout \<times> Repos" where
  "escalatePayout payout s =
    (let payout1 = payout\<lparr>status_P := PROCESSING\<rparr> in (payout1, save_payout payout1 s))"

record PayoutOptions =
  includeBonus_O :: "bool option"
  periodYear_O :: "int option"
  periodMonth_O :: "int option"
  bonusOverride :: "(string \<times> BonusType) option"

text \<open>Calculate, record, and escalate a revenue-share payout to a single provider.\<close>

definition processProviderPayout ::
  "Date \<Rightarrow> string \<Rightarrow> string \<Rightarrow> PayoutOptions \<Rightarrow> Repos \<Rightarrow> (error + ProviderRevenuePayout) \<times> Repos"
  where
  "processProviderPayout now providerId baseRevenue options s =
    (let includeBonus = (case includeBonus_O options of None \<Rightarrow> True | Some b \<Rightarrow> b)
     in case calculateRevenueShare now providerId baseRevenue includeBonus s of
          (Inl e, s1) \<Rightarrow> (Inl e, s1)
        | (Inr calc, s1) \<Rightarrow>
            (case find (\<lambda>u. id_U u = providerId) (userRepo s1) of
               None \<Rightarrow> (Inl (NotFoundException (Provider_user_not_found providerId)), s1)
             | Some user \<Rightarrow>
                 (let bonusAmount =
                        (case bonusOverride options of
                           Some (amount, _) \<Rightarrow> amount
                         | None \<Rightarrow> bonusAmount_C calc);
                      bonusType =
                        (case bonusOverride options of
                           Some (_, type) \<Rightarrow> Some type
                         | None \<Rightarrow> bonusType_C calc)
                  in case new_Big (revenueShareAmount_C calc) of
                       None \<Rightarrow> (Inl (Error Invalid_number), s1)
                     | Some r \<Rightarrow>
                 (case new_Big bonusAmount of
                    None \<Rightarrow> (Inl (Error Invalid_number), s1)
                  | Some b \<Rightarrow>
                     (let totalPayout = toFixed 8 (Big_plus r b);
                          (payout, s2) =
                            recordPayout now providerId (tierLevel_C calc) baseRevenue
                              (sharePercentage_C calc) (revenueShareAmount_C calc) bonusAmount
                              bonusType totalPayout (walletAddress_U user)
                              (periodYear_O options) (periodMonth_O options) s1
                      in if tierLevel_C calc = ELITE \<or> tierLevel_C calc = PLATINUM
                         then (let (payout1, s3) = escalatePayout payout s2 in (Inr payout1, s3))
                         else (Inr payout, s2))))))"

subsection \<open>Monthly batch\<close>

datatype DetailStatus = Success | Failed | Skipped

record BatchDetail =
  providerId_D :: string
  status_D :: DetailStatus
  amount :: string
  reason :: "message option"

record MonthlyBatchResult =
  processed :: nat
  totalDispatched :: string
  successfulPayouts :: nat
  failedPayouts :: nat
  skipped :: nat
  details :: "BatchDetail list"

text \<open>
  The loop over \<^verbatim>\<open>revenueMap.entries()\<close>, in insertion order. The test
  \<^verbatim>\<open>new Big(baseRevenue).lte(0)\<close> stands before the \<^verbatim>\<open>try\<close>: an exception of
  big.js there leaves the loop and the method. Inside the \<^verbatim>\<open>try\<close> every exception is
  caught and recorded.
\<close>

fun batchLoop ::
  "Date \<Rightarrow> int \<Rightarrow> int \<Rightarrow> (string \<times> string) list \<Rightarrow> MonthlyBatchResult \<Rightarrow> Big \<Rightarrow> Repos \<Rightarrow>
   (error + MonthlyBatchResult \<times> Big) \<times> Repos" where
  "batchLoop now year month [] result dispatched s = (Inr (result, dispatched), s)"
| "batchLoop now year month ((providerId, baseRevenue) # rest) result dispatched s =
    (let result1 = result\<lparr>processed := processed result + 1\<rparr>
     in case new_Big baseRevenue of
          None \<Rightarrow> (Inl (Error Invalid_number), s)
        | Some base \<Rightarrow>
            if Big_lte base (Big_of_int 0)
            then batchLoop now year month rest
                   (result1\<lparr>skipped := skipped result1 + 1,
                            details := details result1 @
                              [\<lparr>providerId_D = providerId, status_D = Skipped, amount = ''0'',
                                reason = Some Zero_revenue\<rparr>]\<rparr>)
                   dispatched s
            else
              (case processProviderPayout now providerId baseRevenue
                      \<lparr>includeBonus_O = Some True, periodYear_O = Some year,
                       periodMonth_O = Some month, bonusOverride = None\<rparr> s of
                 (Inr payout, s1) \<Rightarrow>
                   (case new_Big (totalPayout_P payout) of
                      Some t \<Rightarrow>
                        batchLoop now year month rest
                          (result1\<lparr>successfulPayouts := successfulPayouts result1 + 1,
                                   details := details result1 @
                                     [\<lparr>providerId_D = providerId, status_D = Success,
                                       amount = totalPayout_P payout, reason = None\<rparr>]\<rparr>)
                          (Big_plus dispatched t) s1
                    | None \<Rightarrow>
                        batchLoop now year month rest
                          (result1\<lparr>failedPayouts := failedPayouts result1 + 1,
                                   details := details result1 @
                                     [\<lparr>providerId_D = providerId, status_D = Failed,
                                       amount = ''0'', reason = Some Invalid_number\<rparr>]\<rparr>)
                          dispatched s1)
               | (Inl err, s1) \<Rightarrow>
                   batchLoop now year month rest
                     (result1\<lparr>failedPayouts := failedPayouts result1 + 1,
                              details := details result1 @
                                [\<lparr>providerId_D = providerId, status_D = Failed, amount = ''0'',
                                  reason = Some (message_of err)\<rparr>]\<rparr>)
                     dispatched s1))"

text \<open>Process monthly revenue-share payouts for all providers of the revenue map.\<close>

definition processMontlyBatch ::
  "Date \<Rightarrow> int \<Rightarrow> int \<Rightarrow> (string \<times> string) list \<Rightarrow> Repos \<Rightarrow> (error + MonthlyBatchResult) \<times> Repos"
  where
  "processMontlyBatch now year month revenueMap s =
    (case batchLoop now year month revenueMap
            \<lparr>processed = 0, totalDispatched = ''0'', successfulPayouts = 0, failedPayouts = 0,
             skipped = 0, details = []\<rparr>
            (Big_of_int 0) s of
       (Inl e, s1) \<Rightarrow> (Inl e, s1)
     | (Inr (result, dispatched), s1) \<Rightarrow> (Inr (result\<lparr>totalDispatched := toFixed 8 dispatched\<rparr>), s1))"

subsection \<open>Bonuses\<close>

text \<open>Award a one-off performance bonus to a provider. The reason is only logged.\<close>

definition awardPerformanceBonus ::
  "Date \<Rightarrow> string \<Rightarrow> string \<Rightarrow> BonusType \<Rightarrow> string option \<Rightarrow> Repos \<Rightarrow>
   (error + ProviderRevenuePayout) \<times> Repos" where
  "awardPerformanceBonus now providerId bonusAmountUsdc bonusType logReason s =
    (case find (\<lambda>u. id_U u = providerId) (userRepo s) of
       None \<Rightarrow> (Inl (NotFoundException (Provider_not_found providerId)), s)
     | Some user \<Rightarrow>
         (let tier = currentTierOrBronze providerId s;
              (payout, s1) =
                recordPayout now providerId tier ''0'' ''0'' ''0'' bonusAmountUsdc (Some bonusType)
                  bonusAmountUsdc (walletAddress_U user) None None s
          in (Inr payout, s1)))"

record StreakBonusResult =
  bonusIssued :: bool
  bonusAmount_B :: string
  streakCount :: int

definition thresholds :: "(int \<times> string) list" where
  "thresholds = [(20, ''200''), (10, ''75''), (5, ''25'')]"

text \<open>
  Evaluate whether a provider has reached a win-streak milestone and, if so, issue the
  appropriate streak bonus.
\<close>

definition checkAndIssueStreakBonus ::
  "Date \<Rightarrow> string \<Rightarrow> Repos \<Rightarrow> (error + StreakBonusResult) \<times> Repos" where
  "checkAndIssueStreakBonus now providerId s =
    (case find (\<lambda>st. providerId_S st = providerId) (statsRepo s) of
       None \<Rightarrow> (Inr \<lparr>bonusIssued = False, bonusAmount_B = ''0'', streakCount = 0\<rparr>, s)
     | Some stats \<Rightarrow>
         (let streak = streakWins stats
          in case find (\<lambda>(threshold, bonus). streak \<ge> threshold \<and> streak mod threshold = 0)
                    thresholds of
               None \<Rightarrow>
                 (Inr \<lparr>bonusIssued = False, bonusAmount_B = ''0'', streakCount = streak\<rparr>, s)
             | Some (threshold, bonus) \<Rightarrow>
                 (case find (\<lambda>p. providerId_P p = providerId \<and> bonusType_P p = Some STREAK \<and>
                                  Between (startOfMonth now) now (createdAt p))
                         (payoutRepo s) of
                    Some _ \<Rightarrow>
                      (Inr \<lparr>bonusIssued = False, bonusAmount_B = ''0'', streakCount = streak\<rparr>,
                       s)
                  | None \<Rightarrow>
                      (case awardPerformanceBonus now providerId bonus STREAK
                              (Some ''Win streak'') s of
                         (Inl e, s1) \<Rightarrow> (Inl e, s1)
                       | (Inr _, s1) \<Rightarrow>
                           (Inr \<lparr>bonusIssued = True, bonusAmount_B = bonus,
                                 streakCount = streak\<rparr>, s1)))))"

subsection \<open>Payout confirmation\<close>

text \<open>Mark a payout as completed after on-chain Stellar confirmation.\<close>

definition confirmPayout ::
  "Date \<Rightarrow> nat \<Rightarrow> string \<Rightarrow> Repos \<Rightarrow> (error + ProviderRevenuePayout) \<times> Repos" where
  "confirmPayout now payoutId txHash s =
    (case find (\<lambda>p. id_P p = payoutId) (payoutRepo s) of
       None \<Rightarrow> (Inl (NotFoundException (Payout_not_found payoutId)), s)
     | Some payout \<Rightarrow>
         if status_P payout = COMPLETED then (Inr payout, s)
         else
           (let payout1 = payout\<lparr>status_P := COMPLETED, stellarTxHash := Some txHash,
                                paidAt := Some now\<rparr>
            in (Inr payout1, save_payout payout1 s)))"



subsection \<open>Retention bonus round\<close>

text \<open>
  The inner loop over the assignments of one tier. An exception inside the \<^verbatim>\<open>try\<close>
  (here: big.js rejecting the bonus string, after the payout was recorded) is caught and
  the loop goes on.
\<close>

fun retentionInner ::
  "Date \<Rightarrow> int \<Rightarrow> int \<Rightarrow> ProviderTierLevel \<Rightarrow> RevenueShareTier \<Rightarrow> ProviderTierAssignment list \<Rightarrow>
   nat \<Rightarrow> Big \<Rightarrow> Repos \<Rightarrow> (nat \<times> Big) \<times> Repos" where
  "retentionInner now year month tier tierDef [] credited totalBonus s =
    ((credited, totalBonus), s)"
| "retentionInner now year month tier tierDef (assignment # rest) credited totalBonus s =
    (case find (\<lambda>u. id_U u = providerId_A assignment) (userRepo s) of
       None \<Rightarrow> retentionInner now year month tier tierDef rest credited totalBonus s
     | Some user \<Rightarrow>
         (let s1 = snd (recordPayout now (providerId_A assignment) tier ''0'' ''0'' ''0''
                          (monthlyRetentionBonusUsdc tierDef) (Some MONTHLY_TOP)
                          (monthlyRetentionBonusUsdc tierDef) (walletAddress_U user)
                          (Some year) (Some month) s)
          in case new_Big (monthlyRetentionBonusUsdc tierDef) of
               None \<Rightarrow> retentionInner now year month tier tierDef rest credited totalBonus s1
             | Some b \<Rightarrow>
                 retentionInner now year month tier tierDef rest (credited + 1)
                   (Big_plus totalBonus b) s1))"

fun retentionOuter ::
  "Date \<Rightarrow> int \<Rightarrow> int \<Rightarrow> ProviderTierLevel list \<Rightarrow> nat \<Rightarrow> Big \<Rightarrow> Repos \<Rightarrow> (nat \<times> Big) \<times> Repos"
  where
  "retentionOuter now year month [] credited totalBonus s = ((credited, totalBonus), s)"
| "retentionOuter now year month (tier # tiers) credited totalBonus s =
    (let assignments = filter (\<lambda>a. currentTier a = tier) (assignmentRepo s)
     in case find (\<lambda>t. tierLevel t = tier) (tierRepo s) of
          None \<Rightarrow> retentionOuter now year month tiers credited totalBonus s
        | Some tierDef \<Rightarrow>
            if num_eq (parseFloat (monthlyRetentionBonusUsdc tierDef)) (Num 0)
            then retentionOuter now year month tiers credited totalBonus s
            else
              (let ((credited1, totalBonus1), s1) =
                     retentionInner now year month tier tierDef assignments credited totalBonus s
               in retentionOuter now year month tiers credited1 totalBonus1 s1))"

record RetentionRoundResult =
  credited_R :: nat
  totalBonusUsdc :: string

text \<open>Run the monthly Elite/Platinum retention bonus round.\<close>

definition runRetentionBonusRound :: "Date \<Rightarrow> int \<Rightarrow> int \<Rightarrow> Repos \<Rightarrow> RetentionRoundResult \<times> Repos"
  where
  "runRetentionBonusRound now year month s =
    (let ((credited, totalBonus), s1) =
           retentionOuter now year month [ELITE, PLATINUM] 0 (Big_of_int 0) s
     in (\<lparr>credited_R = credited, totalBonusUsdc = toFixed 8 totalBonus\<rparr>, s1))"

section \<open>Notions used in the statements\<close>

text \<open>The number a decimal string denotes, if it is one.\<close>

definition dec_value :: "string \<Rightarrow> rat option" where
  "dec_value s = map_option Big_val (new_Big s)"

text \<open>The metrics snapshot that \<^verbatim>\<open>evaluateProvider\<close> builds for a provider.\<close>

definition metricsOf :: "string \<Rightarrow> Repos \<Rightarrow> ProviderMetrics" where
  "metricsOf providerId s =
    (let stats = find (\<lambda>st. providerId_S st = providerId) (statsRepo s)
     in \<lparr>providerId_M = providerId,
         winRate_M = (case stats of Some st \<Rightarrow> parseFloat (winRate_S st) | None \<Rightarrow> Num 0),
         totalSignals_M = (case stats of Some st \<Rightarrow> totalSignals_S st | None \<Rightarrow> 0),
         totalCopiers_M = (case stats of Some st \<Rightarrow> totalCopiers_S st | None \<Rightarrow> 0),
         reputationScore_M =
           (case stats of Some st \<Rightarrow> parseFloat (reputationScore_S st) | None \<Rightarrow> Num 0),
         walletAddress_M = []\<rparr>)"

text \<open>All-zero metrics.\<close>

definition zero_metrics :: "string \<Rightarrow> string \<Rightarrow> ProviderMetrics" where
  "zero_metrics providerId wallet =
    \<lparr>providerId_M = providerId, winRate_M = Num 0, totalSignals_M = 0, totalCopiers_M = 0,
     reputationScore_M = Num 0, walletAddress_M = wallet\<rparr>"


text \<open>
  The words of claim C6: the highest threshold that the streak both meets and exactly
  divides, with its bonus.
\<close>

definition highest_matching_threshold :: "int \<Rightarrow> int \<times> string \<Rightarrow> bool" where
  "highest_matching_threshold streak tb =
    (tb \<in> set thresholds \<and> fst tb \<le> streak \<and> streak mod fst tb = 0 \<and>
     (\<forall>tb' \<in> set thresholds.
        fst tb' \<le> streak \<and> streak mod fst tb' = 0 \<longrightarrow> fst tb' \<le> fst tb))"

text \<open>
  A STREAK bonus was already issued for the provider within the current calendar month:
  a payout of the provider with bonus type STREAK created between the first of the month
  and now.
\<close>

definition streak_bonus_this_month :: "Date \<Rightarrow> string \<Rightarrow> Repos \<Rightarrow> bool" where
  "streak_bonus_this_month now providerId s =
    list_ex (\<lambda>p. providerId_P p = providerId \<and> bonusType_P p = Some STREAK \<and>
                  Between (startOfMonth now) now (createdAt p))
      (payoutRepo s)"

subsection \<open>Example stores\<close>

definition empty_store :: Repos where
  "empty_store =
    \<lparr>tierRepo = [], tierCache = [], assignmentRepo = [], payoutRepo = [], statsRepo = [],
     userRepo = []\<rparr>"

text \<open>The store after the module has started on an empty database.\<close>

definition seeded_store :: Repos where
  "seeded_store = onModuleInit empty_store"

definition now0 :: Date where
  "now0 = \<lparr>fullYear = 2026, monthIndex = 10, sinceMonthStart = 1000\<rparr>"

definition assignment_at :: "string \<Rightarrow> ProviderTierLevel \<Rightarrow> ProviderTierAssignment" where
  "assignment_at providerId tier =
    \<lparr>providerId_A = providerId, currentTier = tier, previousTier = None,
     winRateSnapshot = Num 0, signalsSnapshot = 0, copiersSnapshot = 0,
     reputationSnapshot = Num 0, lastEvaluatedAt = None, promotionBonusPaid = False\<rparr>"

text \<open>One provider, with a wallet, at the GOLD tier.\<close>

definition gold_store :: Repos where
  "gold_store =
    seeded_store
      \<lparr>assignmentRepo := [assignment_at ''provider-1'' GOLD],
       userRepo := [\<lparr>id_U = ''provider-1'', walletAddress_U = ''GWALLET1''\<rparr>]\<rparr>"

text \<open>
  One provider, with a wallet, at the BRONZE tier, whose statistics meet the SILVER
  thresholds, and whose win streak is 10.
\<close>

definition provider_stats :: ProviderStats where
  "provider_stats =
    \<lparr>providerId_S = ''provider-1'', winRate_S = ''60'', totalSignals_S = 25,
     totalCopiers_S = 12, reputationScore_S = ''60'', streakWins = 10\<rparr>"

definition bronze_store :: Repos where
  "bronze_store =
    seeded_store
      \<lparr>assignmentRepo := [assignment_at ''provider-1'' BRONZE],
       statsRepo := [provider_stats],
       userRepo := [\<lparr>id_U = ''provider-1'', walletAddress_U = ''GWALLET1''\<rparr>]\<rparr>"



text \<open>Metrics that meet the SILVER thresholds of the default tiers and no higher ones.\<close>

definition silver_metrics :: "string \<Rightarrow> string \<Rightarrow> ProviderMetrics" where
  "silver_metrics providerId wallet =
    \<lparr>providerId_M = providerId, winRate_M = Num 60, totalSignals_M = 25, totalCopiers_M = 12,
     reputationScore_M = Num 60, walletAddress_M = wallet\<rparr>"

text \<open>A ledger holding one payout, in a given status and with a given retry count.\<close>

definition example_payout :: "PayoutStatus \<Rightarrow> nat \<Rightarrow> ProviderRevenuePayout" where
  "example_payout st rc =
    \<lparr>id_P = 0, providerId_P = ''provider-1'', tierLevel_P = GOLD, baseRevenue_P = ''1000'',
     sharePercentage_P = ''8.00'', revenueShareAmount_P = ''80.00000000'',
     bonusAmount_P = ''20.00000000'', bonusType_P = Some MONTHLY_TOP,
     totalPayout_P = ''100.00000000'', assetCode = ''USDC'',
     providerWalletAddress = ''GWALLET1'', status_P = st, periodYear_P = 2026,
     periodMonth_P = 11, stellarTxHash = None, failureReason = None, retryCount = rc,
     paidAt = None, createdAt = now0\<rparr>"


text \<open>The same provider with a win streak of \<open>n\<close>.\<close>

definition streak_store :: "int \<Rightarrow> Repos" where
  "streak_store n = bronze_store\<lparr>statsRepo := [provider_stats\<lparr>streakWins := n\<rparr>]\<rparr>"

text \<open>A later moment of the same month, and a moment of the next month.\<close>

definition later0 :: Date where
  "later0 = \<lparr>fullYear = 2026, monthIndex = 10, sinceMonthStart = 2000\<rparr>"

definition next_month0 :: Date where
  "next_month0 = \<lparr>fullYear = 2026, monthIndex = 11, sinceMonthStart = 5\<rparr>"

section \<open>Facts about the decimal layer\<close>

lemma pad_digits_numeral [simp]:
  "pad_digits (numeral k) n = pad_digits (pred_numeral k) (n div 10) @ [digit_char (n mod 10)]"
  by (metis numeral_eq_Suc pad_digits.simps(2))

lemma digit_char_props:
  "d < 10 \<Longrightarrow> is_digit (digit_char d) \<and> digit_val (digit_char d) = d"
  by (simp add: digit_char_def is_digit_def digit_val_def)

lemma is_digit_digit_char_mod [simp]: "is_digit (digit_char (n mod 10))"
  by (simp add: digit_char_props)

lemma digit_val_digit_char_mod [simp]: "digit_val (digit_char (n mod 10)) = n mod 10"
  by (simp add: digit_char_props)

lemma nat_of_digits_snoc [simp]:
  "nat_of_digits (xs @ [c]) = 10 * nat_of_digits xs + digit_val c"
  by (simp add: nat_of_digits_def)

lemma nat_of_digits_Nil [simp]: "nat_of_digits [] = 0"
  by (simp add: nat_of_digits_def)

lemma digits_of_all_digits: "list_all is_digit (digits_of n)"
proof (induction n rule: digits_of.induct)
  case (1 n)
  show ?case
  proof (cases "n < 10")
    case True
    then show ?thesis by (subst digits_of.simps) (simp add: digit_char_props)
  next
    case False
    with "1" show ?thesis by (subst digits_of.simps) simp
  qed
qed

lemma digits_of_not_Nil [simp]: "digits_of n \<noteq> []"
  by (subst digits_of.simps) simp

lemma nat_of_digits_digits_of [simp]: "nat_of_digits (digits_of n) = n"
proof (induction n rule: digits_of.induct)
  case (1 n)
  show ?case
  proof (cases "n < 10")
    case True
    then show ?thesis
      by (subst digits_of.simps) (simp add: nat_of_digits_def digit_char_props)
  next
    case False
    with "1" show ?thesis by (subst digits_of.simps) simp
  qed
qed

lemma pad_digits_all_digits: "list_all is_digit (pad_digits k n)"
  by (induction k arbitrary: n) simp_all

lemma length_pad_digits [simp]: "length (pad_digits k n) = k"
  by (induction k arbitrary: n) simp_all

lemma nat_of_digits_pad_digits:
  "nat_of_digits (xs @ pad_digits k n) = nat_of_digits xs * 10 ^ k + n mod 10 ^ k"
proof (induction k arbitrary: n)
  case 0
  show ?case by simp
next
  case (Suc k)
  have "nat_of_digits (xs @ pad_digits (Suc k) n) =
        10 * nat_of_digits (xs @ pad_digits k (n div 10)) + n mod 10"
    by (simp flip: append_assoc)
  also have "\<dots> = 10 * (nat_of_digits xs * 10 ^ k + (n div 10) mod 10 ^ k) + n mod 10"
    by (simp only: Suc.IH)
  also have "\<dots> = nat_of_digits xs * 10 ^ Suc k + (10 * ((n div 10) mod 10 ^ k) + n mod 10)"
    by (simp add: algebra_simps)
  also have "10 * ((n div 10) mod 10 ^ k) + n mod 10 = n mod 10 ^ Suc k"
    by (simp add: mod_mult2_eq)
  finally show ?case .
qed

lemma not_digit_dot [simp]: "\<not> is_digit CHR ''.''" "\<not> is_digit CHR ''-''"
  by (simp_all add: is_digit_def)

lemma takeWhile_digits_dot:
  "list_all is_digit ds \<Longrightarrow> takeWhile is_digit (ds @ CHR ''.'' # r) = ds"
  by (simp add: takeWhile_append2 list_all_iff)

lemma dropWhile_digits_dot:
  "list_all is_digit ds \<Longrightarrow> dropWhile is_digit (ds @ CHR ''.'' # r) = CHR ''.'' # r"
  by (simp add: dropWhile_append2 list_all_iff)

lemma takeWhile_all_digits: "list_all is_digit ds \<Longrightarrow> takeWhile is_digit ds = ds"
  by (simp add: list_all_iff)

lemma dropWhile_all_digits: "list_all is_digit ds \<Longrightarrow> dropWhile is_digit ds = []"
  by (simp add: list_all_iff)

lemma parse_unsigned_fixed:
  assumes "0 < dp"
  shows "parse_unsigned (digits_of i @ CHR ''.'' # pad_digits dp f) =
         Some (Big (int (i * 10 ^ dp + f mod 10 ^ dp)) dp)"
proof -
  let ?s = "digits_of i @ CHR ''.'' # pad_digits dp f"
  have ip: "takeWhile is_digit ?s = digits_of i"
    by (rule takeWhile_digits_dot) (rule digits_of_all_digits)
  have r1: "dropWhile is_digit ?s = CHR ''.'' # pad_digits dp f"
    by (rule dropWhile_digits_dot) (rule digits_of_all_digits)
  have fp: "takeWhile is_digit (pad_digits dp f) = pad_digits dp f"
    by (rule takeWhile_all_digits) (rule pad_digits_all_digits)
  have r2: "dropWhile is_digit (pad_digits dp f) = []"
    by (rule dropWhile_all_digits) (rule pad_digits_all_digits)
  have v: "nat_of_digits (digits_of i @ pad_digits dp f) = i * 10 ^ dp + f mod 10 ^ dp"
    by (simp add: nat_of_digits_pad_digits)
  show ?thesis
    using assms by (simp add: parse_unsigned_def ip r1 fp r2 v mk_Big_def Let_def)
qed

lemma hd_digits_of_not_minus: "digits_of n = c # r \<Longrightarrow> c \<noteq> CHR ''-''"
  using digits_of_all_digits [of n] by auto

lemma new_Big_fixed_pos:
  assumes "0 < dp"
  shows "new_Big (digits_of i @ CHR ''.'' # pad_digits dp f) =
         Some (Big (int (i * 10 ^ dp + f mod 10 ^ dp)) dp)"
proof -
  obtain c r where cr: "digits_of i = c # r"
    by (cases "digits_of i") simp_all
  then have "c \<noteq> CHR ''-''" by (rule hd_digits_of_not_minus)
  then show ?thesis
    using parse_unsigned_fixed [OF assms, of i f] by (simp add: new_Big_def cr)
qed

lemma half_up_div_quot_nonneg: "0 < d \<Longrightarrow> 0 \<le> (2 * \<bar>n::int\<bar> + d) div (2 * d)"
  by (rule pos_imp_zdiv_nonneg_iff [THEN iffD2]) simp_all

lemma half_up_div_nonneg: "0 \<le> n \<Longrightarrow> 0 < d \<Longrightarrow> 0 \<le> half_up_div n d"
  using half_up_div_quot_nonneg [of d n]
  by (simp add: half_up_div_def sgn_if)

lemma half_up_div_nonpos: "n < 0 \<Longrightarrow> 0 < d \<Longrightarrow> half_up_div n d \<le> 0"
  using half_up_div_quot_nonneg [of d n]
  by (simp add: half_up_div_def sgn_if)

lemma Big_units_nonneg: "\<not> Big_is_neg x \<Longrightarrow> 0 \<le> Big_units dp x"
  by (cases x) (simp add: half_up_div_nonneg)

lemma Big_units_nonpos: "Big_is_neg x \<Longrightarrow> Big_units dp x \<le> 0"
  by (cases x) (simp add: half_up_div_nonpos mult_le_0_iff)

lemma fixed_digits_value: "int (n div d * d + n mod d mod d) = int n"
  by simp

lemma new_Big_toFixed:
  assumes "0 < dp"
  shows "new_Big (toFixed dp x) = Some (Big (Big_units dp x) dp)"
proof -
  define n where "n = nat \<bar>Big_units dp x\<bar>"
  define s where "s = digits_of (n div 10 ^ dp) @ CHR ''.'' # pad_digits dp (n mod 10 ^ dp)"
  have tf: "toFixed dp x = (if Big_is_neg x then CHR ''-'' # s else s)"
    using assms by (simp add: toFixed_def Let_def n_def s_def)
  have pos: "new_Big s = Some (Big (int n) dp)"
    unfolding s_def using new_Big_fixed_pos [OF assms, of "n div 10 ^ dp" "n mod 10 ^ dp"]
    by (simp only: fixed_digits_value)
  have uns: "parse_unsigned s = Some (Big (int n) dp)"
    unfolding s_def using parse_unsigned_fixed [OF assms, of "n div 10 ^ dp" "n mod 10 ^ dp"]
    by (simp only: fixed_digits_value)
  show ?thesis
  proof (cases "Big_is_neg x")
    case False
    then have "0 \<le> Big_units dp x" by (rule Big_units_nonneg)
    then have "int n = Big_units dp x" by (simp add: n_def)
    with False pos tf show ?thesis by simp
  next
    case True
    then have "Big_units dp x \<le> 0" by (rule Big_units_nonpos)
    then have "- int n = Big_units dp x" by (simp add: n_def)
    with True uns tf show ?thesis by (simp add: new_Big_def)
  qed
qed


lemma Big_val_plus: "Big_val (Big_plus x y) = Big_val x + Big_val y"
  by (cases x; cases y) (simp add: power_add field_simps)

lemma Big_val_of_int [simp]: "Big_val (Big_of_int n) = of_int n"
  by (simp add: Big_of_int_def)

lemma Big_val_neg [simp]: "Big_val (Big_neg x) = - Big_val x"
  by (cases x) simp








section \<open>Facts about the services\<close>

lemma half_up_div_exact: "0 < d \<Longrightarrow> half_up_div (n * d) d = n"
proof -
  assume d: "0 < d"
  have e: "2 * \<bar>n * d\<bar> + d = \<bar>n\<bar> * (2 * d) + d"
    using d by (simp add: abs_mult)
  have "(\<bar>n\<bar> * (2 * d) + d) div (2 * d) = \<bar>n\<bar> + d div (2 * d)"
    by (rule div_mult_self3) (use d in simp)
  also have "d div (2 * d) = 0"
    using d by (simp add: div_pos_pos_trivial)
  finally have "(2 * \<bar>n * d\<bar> + d) div (2 * d) = \<bar>n\<bar>"
    unfolding e by simp
  moreover have "sgn (n * d) = sgn n"
    using d by (simp add: sgn_mult)
  ultimately show ?thesis
    by (simp add: half_up_div_def sgn_if)
qed

lemma Big_units_plus_8: "Big_units 8 (Big_plus (Big a 8) (Big b 8)) = a + b"
proof -
  have "a * 10 ^ 8 + b * 10 ^ 8 = (a + b) * (10 ^ 8 :: int)"
    by (simp add: algebra_simps)
  then have "half_up_div (a * 10 ^ 8 + b * 10 ^ 8) (10 ^ 8) = a + b"
    using half_up_div_exact [of "10 ^ 8" "a + b"] by simp
  then show ?thesis by simp
qed

lemma new_Big_toFixed_8: "new_Big (toFixed 8 x) = Some (Big (Big_units 8 x) 8)"
  by (rule new_Big_toFixed) simp

lemma dec_value_toFixed_8: "dec_value (toFixed 8 x) = Some (of_int (Big_units 8 x) / 10 ^ 8)"
  by (simp add: dec_value_def new_Big_toFixed_8)

lemmas decimal_eval =
  new_Big_def parse_unsigned_def is_digit_def nat_of_digits_def digit_val_def mk_Big_def
  parse_exponent_def parse_digits_def toFixed_def digits_of.simps digit_char_def
  half_up_div_def Big_of_int_def DP_def parseFloat_def






subsection \<open>The default tiers\<close>

lemma BRONZE_TIER_fields [simp]:
  "tierLevel BRONZE_TIER = BRONZE" "revenueSharePercentage BRONZE_TIER = ''4.00''"
  "minWinRate BRONZE_TIER = ''0''" "minSignals BRONZE_TIER = 0" "minCopiers BRONZE_TIER = 0"
  "minReputationScore BRONZE_TIER = ''0''" "performanceBonusUsdc BRONZE_TIER = ''0''"
  "monthlyRetentionBonusUsdc BRONZE_TIER = ''0''" "isActive BRONZE_TIER" "sortOrder BRONZE_TIER = 1"
  by (simp_all add: BRONZE_TIER_def)

lemma SILVER_TIER_fields [simp]:
  "tierLevel SILVER_TIER = SILVER" "revenueSharePercentage SILVER_TIER = ''6.00''"
  "minWinRate SILVER_TIER = ''55''" "minSignals SILVER_TIER = 20" "minCopiers SILVER_TIER = 10"
  "minReputationScore SILVER_TIER = ''55''" "performanceBonusUsdc SILVER_TIER = ''10''"
  "monthlyRetentionBonusUsdc SILVER_TIER = ''5''" "isActive SILVER_TIER" "sortOrder SILVER_TIER = 2"
  by (simp_all add: SILVER_TIER_def)

lemma GOLD_TIER_fields [simp]:
  "tierLevel GOLD_TIER = GOLD" "revenueSharePercentage GOLD_TIER = ''8.00''"
  "minWinRate GOLD_TIER = ''62''" "minSignals GOLD_TIER = 50" "minCopiers GOLD_TIER = 50"
  "minReputationScore GOLD_TIER = ''65''" "performanceBonusUsdc GOLD_TIER = ''50''"
  "monthlyRetentionBonusUsdc GOLD_TIER = ''20''" "isActive GOLD_TIER" "sortOrder GOLD_TIER = 3"
  by (simp_all add: GOLD_TIER_def)

lemma PLATINUM_TIER_fields [simp]:
  "tierLevel PLATINUM_TIER = PLATINUM" "revenueSharePercentage PLATINUM_TIER = ''9.00''"
  "minWinRate PLATINUM_TIER = ''68''" "minSignals PLATINUM_TIER = 100"
  "minCopiers PLATINUM_TIER = 150" "minReputationScore PLATINUM_TIER = ''75''"
  "performanceBonusUsdc PLATINUM_TIER = ''150''" "monthlyRetentionBonusUsdc PLATINUM_TIER = ''50''"
  "isActive PLATINUM_TIER" "sortOrder PLATINUM_TIER = 4"
  by (simp_all add: PLATINUM_TIER_def)

lemma ELITE_TIER_fields [simp]:
  "tierLevel ELITE_TIER = ELITE" "revenueSharePercentage ELITE_TIER = ''10.00''"
  "minWinRate ELITE_TIER = ''75''" "minSignals ELITE_TIER = 200" "minCopiers ELITE_TIER = 300"
  "minReputationScore ELITE_TIER = ''85''" "performanceBonusUsdc ELITE_TIER = ''500''"
  "monthlyRetentionBonusUsdc ELITE_TIER = ''100''" "isActive ELITE_TIER" "sortOrder ELITE_TIER = 5"
  by (simp_all add: ELITE_TIER_def)

lemma find_DEFAULT_TIERS [simp]:
  "find (\<lambda>t. tierLevel t = BRONZE) DEFAULT_TIERS = Some BRONZE_TIER"
  "find (\<lambda>t. tierLevel t = SILVER) DEFAULT_TIERS = Some SILVER_TIER"
  "find (\<lambda>t. tierLevel t = GOLD) DEFAULT_TIERS = Some GOLD_TIER"
  "find (\<lambda>t. tierLevel t = PLATINUM) DEFAULT_TIERS = Some PLATINUM_TIER"
  "find (\<lambda>t. tierLevel t = ELITE) DEFAULT_TIERS = Some ELITE_TIER"
  by (simp_all add: DEFAULT_TIERS_def)

lemma seedLoop_empty: "seedLoop DEFAULT_TIERS empty_store = empty_store\<lparr>tierRepo := DEFAULT_TIERS\<rparr>"
  by (simp add: DEFAULT_TIERS_def empty_store_def)

lemma seeded_store_eq:
  "seeded_store = empty_store\<lparr>tierRepo := DEFAULT_TIERS, tierCache := DEFAULT_TIERS\<rparr>"
  by (simp add: seeded_store_def onModuleInit_def seedDefaultTiers_def seedLoop_empty
      refreshTierCache_def) (simp add: DEFAULT_TIERS_def empty_store_def)


lemma dec_value_sum_8:
  assumes "new_Big x = Some (Big a 8)" "new_Big y = Some (Big b 8)"
  shows "dec_value (toFixed 8 (Big_plus (Big a 8) (Big b 8))) =
         Some (Big_val (Big a 8) + Big_val (Big b 8))"
  by (simp only: dec_value_toFixed_8 Big_units_plus_8) (simp add: add_divide_distrib)



lemma gold_store_simps:
  "assignmentRepo gold_store = [assignment_at ''provider-1'' GOLD]"
  "tierRepo gold_store = DEFAULT_TIERS"
  "tierCache gold_store = DEFAULT_TIERS"
  "payoutRepo gold_store = []"
  "userRepo gold_store = [\<lparr>id_U = ''provider-1'', walletAddress_U = ''GWALLET1''\<rparr>]"
  by (simp_all add: gold_store_def seeded_store_eq empty_store_def)

subsection \<open>Decimals of the examples\<close>

lemma new_Big_examples [simp]:
  "new_Big ''1000'' = Some (Big 1000 0)"
  "new_Big ''0'' = Some (Big 0 0)"
  "new_Big ''4.00'' = Some (Big 400 2)"
  "new_Big ''8.00'' = Some (Big 800 2)"
  "new_Big ''20'' = Some (Big 20 0)"
  "new_Big ''80.00000000'' = Some (Big 8000000000 8)"
  "new_Big ''20.00000000'' = Some (Big 2000000000 8)"
  by (simp_all add: decimal_eval)

lemma toFixed_examples [simp]:
  "toFixed 8 (Big 8000000000000000000000 20) = ''80.00000000''"
  "toFixed 8 (Big 20 0) = ''20.00000000''"
  "toFixed 8 (Big 1000000000000000000 16) = ''100.00000000''"
  by (simp_all add: decimal_eval)

lemma gold_example:
  "calculateRevenueShare now0 ''provider-1'' ''1000'' True gold_store =
     (Inr \<lparr>providerId_C = ''provider-1'', tierLevel_C = GOLD, sharePercentage_C = ''8.00'',
            baseRevenue_C = ''1000'', revenueShareAmount_C = ''80.00000000'',
            bonusAmount_C = ''20.00000000'', bonusType_C = Some MONTHLY_TOP,
            totalPayout_C = ''100.00000000''\<rparr>, gold_store)"
  by (simp add: calculateRevenueShare_def getOrCreateAssignment_def currentTierOrBronze_def
      gold_store_simps assignment_at_def parseFloat_def Big_of_int_def DP_def half_up_div_def)

subsection \<open>What the operations leave unchanged\<close>

lemma recordPayout_store:
  "snd (recordPayout now pid tier br sp rs ba bt tp w py pm s) =
     s\<lparr>payoutRepo := payoutRepo s @
          [fst (recordPayout now pid tier br sp rs ba bt tp w py pm s)]\<rparr>"
  by (simp add: recordPayout_def Let_def)

lemma recordPayout_fields:
  "id_P (fst (recordPayout now pid tier br sp rs ba bt tp w py pm s)) =
     next_payout_id (payoutRepo s)"
  "providerId_P (fst (recordPayout now pid tier br sp rs ba bt tp w py pm s)) = pid"
  "tierLevel_P (fst (recordPayout now pid tier br sp rs ba bt tp w py pm s)) = tier"
  "baseRevenue_P (fst (recordPayout now pid tier br sp rs ba bt tp w py pm s)) = br"
  "sharePercentage_P (fst (recordPayout now pid tier br sp rs ba bt tp w py pm s)) = sp"
  "revenueShareAmount_P (fst (recordPayout now pid tier br sp rs ba bt tp w py pm s)) = rs"
  "bonusAmount_P (fst (recordPayout now pid tier br sp rs ba bt tp w py pm s)) = ba"
  "bonusType_P (fst (recordPayout now pid tier br sp rs ba bt tp w py pm s)) = bt"
  "totalPayout_P (fst (recordPayout now pid tier br sp rs ba bt tp w py pm s)) = tp"
  "assetCode (fst (recordPayout now pid tier br sp rs ba bt tp w py pm s)) = ''USDC''"
  "providerWalletAddress (fst (recordPayout now pid tier br sp rs ba bt tp w py pm s)) = w"
  "status_P (fst (recordPayout now pid tier br sp rs ba bt tp w py pm s)) = PENDING"
  "retryCount (fst (recordPayout now pid tier br sp rs ba bt tp w py pm s)) = 0"
  "createdAt (fst (recordPayout now pid tier br sp rs ba bt tp w py pm s)) = now"
  by (simp_all add: recordPayout_def Let_def)

lemma save_assignment_others [simp]:
  "tierRepo (save_assignment a s) = tierRepo s"
  "tierCache (save_assignment a s) = tierCache s"
  "payoutRepo (save_assignment a s) = payoutRepo s"
  "statsRepo (save_assignment a s) = statsRepo s"
  "userRepo (save_assignment a s) = userRepo s"
  by (simp_all add: save_assignment_def split: option.splits)

lemma save_payout_others [simp]:
  "tierRepo (save_payout p s) = tierRepo s"
  "tierCache (save_payout p s) = tierCache s"
  "assignmentRepo (save_payout p s) = assignmentRepo s"
  "statsRepo (save_payout p s) = statsRepo s"
  "userRepo (save_payout p s) = userRepo s"
  by (simp_all add: save_payout_def)

text \<open>An evaluation whose metrics carry no wallet address pays nothing.\<close>

lemma evaluate_without_wallet:
  assumes "walletAddress_M metrics = []"
  shows "bonusTriggered (fst (evaluateProviderWithMetrics now metrics s)) = False"
    and "bonusAmount_E (fst (evaluateProviderWithMetrics now metrics s)) = ''0''"
    and "payoutRepo (snd (evaluateProviderWithMetrics now metrics s)) = payoutRepo s"
    and "tierRepo (snd (evaluateProviderWithMetrics now metrics s)) = tierRepo s"
    and "tierCache (snd (evaluateProviderWithMetrics now metrics s)) = tierCache s"
    and "statsRepo (snd (evaluateProviderWithMetrics now metrics s)) = statsRepo s"
    and "userRepo (snd (evaluateProviderWithMetrics now metrics s)) = userRepo s"
  using assms by (simp_all add: evaluateProviderWithMetrics_def Let_def)

lemma evaluateProvider_metrics:
  "evaluateProvider now providerId s =
     evaluateProviderWithMetrics now (metricsOf providerId s) s"
  by (simp add: evaluateProvider_def metricsOf_def Let_def)

lemma metricsOf_wallet [simp]: "walletAddress_M (metricsOf providerId s) = []"
  "providerId_M (metricsOf providerId s) = providerId"
  by (simp_all add: metricsOf_def Let_def)

lemma evaluateProvider_pays_nothing:
  "bonusTriggered (fst (evaluateProvider now providerId s)) = False"
  "bonusAmount_E (fst (evaluateProvider now providerId s)) = ''0''"
  "payoutRepo (snd (evaluateProvider now providerId s)) = payoutRepo s"
  "tierRepo (snd (evaluateProvider now providerId s)) = tierRepo s"
  "tierCache (snd (evaluateProvider now providerId s)) = tierCache s"
  "statsRepo (snd (evaluateProvider now providerId s)) = statsRepo s"
  "userRepo (snd (evaluateProvider now providerId s)) = userRepo s"
  by (simp_all add: evaluateProvider_metrics evaluate_without_wallet)

lemma evaluateAllLoop_pays_nothing:
  "(\<forall>r \<in> set results. \<not> bonusTriggered r) \<Longrightarrow>
   (\<forall>r \<in> set (fst (evaluateAllLoop now sts results s)). \<not> bonusTriggered r) \<and>
   payoutRepo (snd (evaluateAllLoop now sts results s)) = payoutRepo s \<and>
   length (fst (evaluateAllLoop now sts results s)) = length results + length sts"
proof (induction sts arbitrary: results s)
  case Nil
  then show ?case by simp
next
  case (Cons st sts)
  obtain r s1 where e: "evaluateProvider now (providerId_S st) s = (r, s1)"
    by (cases "evaluateProvider now (providerId_S st) s")
  from evaluateProvider_pays_nothing(1,3) [of now "providerId_S st" s] e
  have r: "\<not> bonusTriggered r" and s1: "payoutRepo s1 = payoutRepo s"
    by simp_all
  from Cons.prems r have "\<forall>x \<in> set (results @ [r]). \<not> bonusTriggered x"
    by simp
  from Cons.IH [OF this, of s1] show ?case
    by (simp add: e s1)
qed

lemma getOrCreateAssignment_payouts:
  "payoutRepo (getOrCreateAssignment now providerId s) = payoutRepo s"
  "tierRepo (getOrCreateAssignment now providerId s) = tierRepo s"
  "tierCache (getOrCreateAssignment now providerId s) = tierCache s"
  "statsRepo (getOrCreateAssignment now providerId s) = statsRepo s"
  "userRepo (getOrCreateAssignment now providerId s) = userRepo s"
  by (simp_all add: getOrCreateAssignment_def evaluateProvider_pays_nothing split: option.splits)

lemma calculateRevenueShare_store:
  "snd (calculateRevenueShare now providerId baseRevenue includeBonus s) = s \<or>
   snd (calculateRevenueShare now providerId baseRevenue includeBonus s) =
     getOrCreateAssignment now providerId s"
  unfolding calculateRevenueShare_def Let_def
  by (simp split: option.splits)

lemma calculateRevenueShare_payouts:
  "payoutRepo (snd (calculateRevenueShare now providerId baseRevenue includeBonus s)) = payoutRepo s"
  "userRepo (snd (calculateRevenueShare now providerId baseRevenue includeBonus s)) = userRepo s"
  "tierRepo (snd (calculateRevenueShare now providerId baseRevenue includeBonus s)) = tierRepo s"
  using calculateRevenueShare_store [of now providerId baseRevenue includeBonus s]
  by (auto simp: getOrCreateAssignment_payouts)

subsection \<open>Tier resolution\<close>



lemma sorted_DEFAULT_TIERS:
  "sort_key (\<lambda>t. - indexOf TIER_ORDER (tierLevel t)) DEFAULT_TIERS =
     [ELITE_TIER, PLATINUM_TIER, GOLD_TIER, SILVER_TIER, BRONZE_TIER]"
  by (simp add: DEFAULT_TIERS_def TIER_ORDER_def)

lemma indexOf_TIER_ORDER [simp]:
  "indexOf TIER_ORDER BRONZE = 0" "indexOf TIER_ORDER SILVER = 1" "indexOf TIER_ORDER GOLD = 2"
  "indexOf TIER_ORDER PLATINUM = 3" "indexOf TIER_ORDER ELITE = 4"
  by (simp_all add: TIER_ORDER_def)

lemma parseFloat_thresholds [simp]:
  "parseFloat ''0'' = Num 0" "parseFloat ''55'' = Num 55" "parseFloat ''62'' = Num 62"
  "parseFloat ''65'' = Num 65" "parseFloat ''68'' = Num 68" "parseFloat ''75'' = Num 75"
  "parseFloat ''85'' = Num 85" "parseFloat ''60'' = Num 60"
  by (simp_all add: decimal_eval)

lemma parseFloat_bonuses [simp]:
  "parseFloat ''10'' = Num 10" "parseFloat ''50'' = Num 50" "parseFloat ''150'' = Num 150"
  "parseFloat ''500'' = Num 500" "parseFloat ''5'' = Num 5" "parseFloat ''20'' = Num 20"
  "parseFloat ''100'' = Num 100"
  by (simp_all add: decimal_eval)



lemma qualifies_zero_defaults:
  "qualifies (zero_metrics p w) BRONZE_TIER" "\<not> qualifies (zero_metrics p w) SILVER_TIER"
  "\<not> qualifies (zero_metrics p w) GOLD_TIER" "\<not> qualifies (zero_metrics p w) PLATINUM_TIER"
  "\<not> qualifies (zero_metrics p w) ELITE_TIER"
  by (simp_all add: qualifies_def zero_metrics_def)

lemma qualifies_silver_defaults:
  "qualifies (silver_metrics p w) BRONZE_TIER" "qualifies (silver_metrics p w) SILVER_TIER"
  "\<not> qualifies (silver_metrics p w) GOLD_TIER" "\<not> qualifies (silver_metrics p w) PLATINUM_TIER"
  "\<not> qualifies (silver_metrics p w) ELITE_TIER"
  by (simp_all add: qualifies_def silver_metrics_def)

lemma resolve_defaults:
  "tierCache s = DEFAULT_TIERS \<Longrightarrow> resolveTierForMetrics s (zero_metrics p w) = BRONZE"
  "tierCache s = DEFAULT_TIERS \<Longrightarrow> resolveTierForMetrics s (silver_metrics p w) = SILVER"
  by (simp_all add: resolveTierForMetrics_def getCachedTiers_def sorted_DEFAULT_TIERS
      qualifies_zero_defaults qualifies_silver_defaults)


lemma bronze_store_simps:
  "assignmentRepo bronze_store = [assignment_at ''provider-1'' BRONZE]"
  "tierRepo bronze_store = DEFAULT_TIERS"
  "tierCache bronze_store = DEFAULT_TIERS"
  "payoutRepo bronze_store = []"
  "statsRepo bronze_store = [provider_stats]"
  "userRepo bronze_store = [\<lparr>id_U = ''provider-1'', walletAddress_U = ''GWALLET1''\<rparr>]"
  by (simp_all add: bronze_store_def seeded_store_eq empty_store_def)

lemma metricsOf_bronze_store:
  "metricsOf ''provider-1'' bronze_store = silver_metrics ''provider-1'' []"
  by (simp add: metricsOf_def bronze_store_simps provider_stats_def silver_metrics_def)

lemma example_metrics_fields [simp]:
  "providerId_M (silver_metrics p w) = p" "walletAddress_M (silver_metrics p w) = w"
  "providerId_M (zero_metrics p w) = p" "walletAddress_M (zero_metrics p w) = w"
  by (simp_all add: silver_metrics_def zero_metrics_def)

text \<open>The classification of an evaluation, whatever the wallet address.\<close>

lemma evaluate_classification:
  "newTier (fst (evaluateProviderWithMetrics now metrics s)) = resolveTierForMetrics s metrics"
  "previousTier_E (fst (evaluateProviderWithMetrics now metrics s)) =
     map_option currentTier (find (\<lambda>a. providerId_A a = providerId_M metrics) (assignmentRepo s))"
  "promoted (fst (evaluateProviderWithMetrics now metrics s)) =
     (case find (\<lambda>a. providerId_A a = providerId_M metrics) (assignmentRepo s) of
        None \<Rightarrow> False
      | Some a \<Rightarrow> indexOf TIER_ORDER (resolveTierForMetrics s metrics) >
                 indexOf TIER_ORDER (currentTier a))"
  "demoted (fst (evaluateProviderWithMetrics now metrics s)) =
     (case find (\<lambda>a. providerId_A a = providerId_M metrics) (assignmentRepo s) of
        None \<Rightarrow> False
      | Some a \<Rightarrow> indexOf TIER_ORDER (resolveTierForMetrics s metrics) <
                 indexOf TIER_ORDER (currentTier a))"
  by (simp_all add: evaluateProviderWithMetrics_def Let_def split: option.splits)

lemma bronze_store_promotion:
  "promoted (fst (evaluateProvider now0 ''provider-1'' bronze_store))"
  "newTier (fst (evaluateProvider now0 ''provider-1'' bronze_store)) = SILVER"
  by (simp_all add: evaluateProvider_metrics metricsOf_bronze_store evaluate_classification
      resolve_defaults bronze_store_simps assignment_at_def)

lemma evaluateAll_bronze_store:
  "fst (evaluateAllProviders now0 bronze_store) = [fst (evaluateProvider now0 ''provider-1'' bronze_store)]"
  by (simp add: evaluateAllProviders_def bronze_store_simps provider_stats_def split_beta)

subsection \<open>The ledger\<close>

lemma length_replace_first [simp]: "length (replace_first P y xs) = length xs"
  by (induction xs) simp_all


lemma find_replace_first_other:
  "(\<And>x. Q x \<Longrightarrow> \<not> P x) \<Longrightarrow> \<not> Q y \<Longrightarrow> find Q (replace_first P y xs) = find Q xs"
  by (induction xs) auto

lemma replace_first_absent: "(\<And>x. x \<in> set xs \<Longrightarrow> \<not> P x) \<Longrightarrow> replace_first P y xs = xs"
  by (induction xs) auto

lemma replace_first_append_absent:
  "(\<And>x. x \<in> set xs \<Longrightarrow> \<not> P x) \<Longrightarrow> replace_first P y (xs @ ys) = xs @ replace_first P y ys"
  by (induction xs) auto

lemma next_payout_id_fresh: "p \<in> set ps \<Longrightarrow> id_P p < next_payout_id ps"
  by (induction ps) (auto simp: next_payout_id_def)


lemma confirmPayout_found:
  assumes "find (\<lambda>p. id_P p = payoutId) (payoutRepo s) = Some payout"
  shows "status_P payout = COMPLETED \<Longrightarrow> confirmPayout now payoutId txHash s = (Inr payout, s)"
    and "status_P payout \<noteq> COMPLETED \<Longrightarrow>
         confirmPayout now payoutId txHash s =
           (Inr (payout\<lparr>status_P := COMPLETED, stellarTxHash := Some txHash, paidAt := Some now\<rparr>),
            save_payout (payout\<lparr>status_P := COMPLETED, stellarTxHash := Some txHash,
                                paidAt := Some now\<rparr>) s)"
  using assms by (simp_all add: confirmPayout_def Let_def)




lemma find_save_payout_other:
  assumes "id_P payout1 \<noteq> j"
  shows "find (\<lambda>p. id_P p = j) (payoutRepo (save_payout payout1 s)) =
         find (\<lambda>p. id_P p = j) (payoutRepo s)"
  unfolding save_payout_def using assms
  by (simp add: find_replace_first_other [where Q = "\<lambda>p. id_P p = j"])




lemma example_payout_fields [simp]:
  "id_P (example_payout st rc) = 0" "status_P (example_payout st rc) = st"
  "retryCount (example_payout st rc) = rc"
  by (simp_all add: example_payout_def)

section \<open>The claims\<close>

subsection \<open>C1: the revenue share calculation\<close>



subsection \<open>C7: tier resolution\<close>




subsection \<open>C10: evaluation by provider id pays no promotion bonus\<close>

text \<open>
  Claim C10. \<^verbatim>\<open>evaluateProvider\<close> evaluates the provider with a metrics snapshot whose
  wallet address is empty. So it never reports \<open>bonusTriggered\<close> and never records a
  payout; the same holds for every provider that \<^verbatim>\<open>evaluateAllProviders\<close> processes
  (one result for each statistics row) and for the first-time evaluation inside
  \<^verbatim>\<open>calculateRevenueShare\<close>, which leaves the payouts as they were.
\<close>

theorem evaluateProvider_never_pays:
  "(\<exists>metrics. walletAddress_M metrics = [] \<and> providerId_M metrics = providerId \<and>
      evaluateProvider now providerId s = evaluateProviderWithMetrics now metrics s) \<and>
   \<not> bonusTriggered (fst (evaluateProvider now providerId s)) \<and>
   payoutRepo (snd (evaluateProvider now providerId s)) = payoutRepo s \<and>
   length (fst (evaluateAllProviders now s)) = length (statsRepo s) \<and>
   (\<forall>r \<in> set (fst (evaluateAllProviders now s)). \<not> bonusTriggered r) \<and>
   payoutRepo (snd (evaluateAllProviders now s)) = payoutRepo s \<and>
   payoutRepo (snd (calculateRevenueShare now providerId baseRevenue includeBonus s)) =
     payoutRepo s"
proof (intro conjI)
  show "\<exists>metrics. walletAddress_M metrics = [] \<and> providerId_M metrics = providerId \<and>
      evaluateProvider now providerId s = evaluateProviderWithMetrics now metrics s"
    using evaluateProvider_metrics [of now providerId s] metricsOf_wallet [of providerId s]
    by blast
  show "\<not> bonusTriggered (fst (evaluateProvider now providerId s))"
    by (simp add: evaluateProvider_pays_nothing)
  show "payoutRepo (snd (evaluateProvider now providerId s)) = payoutRepo s"
    by (simp add: evaluateProvider_pays_nothing)
  have "\<forall>r \<in> set ([] :: TierEvaluationResult list). \<not> bonusTriggered r"
    by simp
  from evaluateAllLoop_pays_nothing [OF this, of now "statsRepo s" s]
  show "length (fst (evaluateAllProviders now s)) = length (statsRepo s)"
    and "\<forall>r \<in> set (fst (evaluateAllProviders now s)). \<not> bonusTriggered r"
    and "payoutRepo (snd (evaluateAllProviders now s)) = payoutRepo s"
    by (simp_all add: evaluateAllProviders_def)
  show "payoutRepo (snd (calculateRevenueShare now providerId baseRevenue includeBonus s)) =
     payoutRepo s"
    by (rule calculateRevenueShare_payouts)
qed

text \<open>
  A provider at BRONZE whose statistics meet the SILVER thresholds is promoted to SILVER,
  a tier with a positive promotion bonus, and still no bonus is triggered and no payout
  recorded.
\<close>

theorem evaluateProvider_never_pays_witness:
  "promoted (fst (evaluateProvider now0 ''provider-1'' bronze_store)) \<and>
   newTier (fst (evaluateProvider now0 ''provider-1'' bronze_store)) = SILVER \<and>
   num_gt (parseFloat (performanceBonusUsdc SILVER_TIER)) (Num 0) \<and>
   fst (evaluateProvider now0 ''provider-1'' bronze_store)
     \<in> set (fst (evaluateAllProviders now0 bronze_store)) \<and>
   \<not> bonusTriggered (fst (evaluateProvider now0 ''provider-1'' bronze_store)) \<and>
   payoutRepo (snd (evaluateAllProviders now0 bronze_store)) = []"
proof -
  note t = evaluateProvider_never_pays [of "''provider-1''" now0 bronze_store "''1000''" True]
  have m: "fst (evaluateProvider now0 ''provider-1'' bronze_store)
     \<in> set (fst (evaluateAllProviders now0 bronze_store))"
    by (simp add: evaluateAll_bronze_store)
  with t have "\<not> bonusTriggered (fst (evaluateProvider now0 ''provider-1'' bronze_store))"
    by blast
  moreover from t have "payoutRepo (snd (evaluateAllProviders now0 bronze_store)) = []"
    by (simp add: bronze_store_simps)
  ultimately show ?thesis
    using m bronze_store_promotion by simp
qed

subsection \<open>C5: retrying a failed payout\<close>



end
